theory Spec2Isabelle
  imports Main "HOL-Library.Sublist" "HOL-Library.AList"
begin

section \<open>colab\_utils: the command runner and its callers\<close>

text \<open>
  The module \<^verbatim>\<open>colab_utils.py\<close> is a set of helpers around one primitive,
  \<^verbatim>\<open>run_cmd\<close>, which spawns a child process, reads its standard output line by
  line and returns its exit status. Everything the helpers do is an effect on the
  outside: printing, spawning processes, reading and moving files. The embedding makes
  these explicit. A \<open>world\<close> value is threaded through every function, a raised
  exception is the \<open>Inl\<close> of a sum, and what the outside answers (how a spawned
  process behaves, what a file holds) is an \<open>env\<close> argument.
\<close>

subsection \<open>Exceptions\<close>

datatype py_error =
    AssertionError string
  | KeyError string
  | TypeError
  | ValueError
  | UnicodeDecodeError
  | FileNotFoundError
  | NotADirectoryError
  | ShutilError string
  | OSError string

subsection \<open>Strings\<close>

text \<open>
  Python's \<^verbatim>\<open>str\<close> is a sequence of code points; \<open>string\<close> covers the code
  points below 256, one \<open>char\<close> each. \<^verbatim>\<open>str.strip()\<close> without argument
  removes the characters for which \<^verbatim>\<open>str.isspace\<close> holds from both ends; below
  256 these are the code points 9 to 13, 28 to 32, 133 and 160.
\<close>

definition isspace :: "char \<Rightarrow> bool" where
  "isspace c = ((of_char c :: nat) \<in> {9, 10, 11, 12, 13, 28, 29, 30, 31, 32, 133, 160})"

definition py_strip :: "string \<Rightarrow> string" where
  "py_strip s = rev (dropWhile isspace (rev (dropWhile isspace s)))"

text \<open>\<^verbatim>\<open>str(n)\<close> for an integer: decimal digits, a minus sign when negative.\<close>

fun digits :: "nat \<Rightarrow> string" where
  "digits n = (if n < 10 then [''0123456789'' ! n] else digits (n div 10) @ [''0123456789'' ! (n mod 10)])"

declare digits.simps [simp del]

definition str_int :: "int \<Rightarrow> string" where
  "str_int i = (if i < 0 then CHR ''-'' # digits (nat (- i)) else digits (nat i))"

subsection \<open>The outside world\<close>

text \<open>
  The current working directory is a list of named entries; an entry is a file with its
  content or a directory with its own entries. \<open>conda_dir_exists\<close> is what
  \<^verbatim>\<open>os.path.exists(CONDA_DIR)\<close> answers.
\<close>

datatype node = File string | Dir "(string \<times> node) list"

record os_state =
  cwd_entries :: "(string \<times> node) list"
  conda_dir_exists :: bool

text \<open>
  A line on the child's standard output is kept as what \<^verbatim>\<open>.decode('utf-8')\<close>
  makes of its bytes: the text (with its line terminator), or nothing when the bytes are
  not UTF-8 and decoding raises.
\<close>

datatype raw = Text string | Undecodable

text \<open>
  A spawned child, as the parent observes it: the lines it writes to standard output in
  the order it writes them, after which the pipe is at end of file; the number of
  iterations of the reading loop during which \<^verbatim>\<open>poll()\<close> still answers
  \<^verbatim>\<open>None\<close> (the child has not yet been seen to exit); its exit status; and the
  state in which it leaves the file system, which is the state the parent finds after
  the call that spawned it, whether that call returns or raises. Every child modelled
  here exits.
\<close>

record process =
  stdout_lines :: "raw list"
  exited_after :: nat
  returncode :: int
  os_after :: os_state

text \<open>
  The world: what has been printed (one entry per \<^verbatim>\<open>print\<close> call), the log
  of children spawned so far (argument vector and shell flag), and the file system.
\<close>

record world =
  console :: "string list"
  spawned :: "(string list \<times> bool) list"
  os :: os_state

text \<open>
  What \<^verbatim>\<open>yaml.load\<close> returns: \<^verbatim>\<open>None\<close>, a string, another scalar (a number,
  a boolean, a date; kept as the text \<^verbatim>\<open>str()\<close> gives for it), a list, or a
  dictionary, whose keys are taken to be strings and kept in insertion order.
\<close>

datatype yaml =
    YNull
  | YStr string
  | YScalar string
  | YSeq "yaml list"
  | YMap "(string \<times> yaml) list"

text \<open>
  The environment answers the library calls whose result the module cannot determine:
  \<^verbatim>\<open>IN_COLAB\<close> (whether the module \<^verbatim>\<open>google.colab\<close> was loaded at import);
  \<^verbatim>\<open>shlex.split\<close> (which raises \<^verbatim>\<open>ValueError\<close> on an unbalanced quote);
  \<^verbatim>\<open>subprocess.Popen\<close>, which either raises (no such program) or starts a
  child whose behaviour may depend on every earlier spawn and on the file system;
  \<^verbatim>\<open>open(filename)\<close> followed by \<^verbatim>\<open>yaml.load\<close>, which raises when the file
  is missing or is not YAML; \<^verbatim>\<open>repr\<close> of a list or dictionary; and what
  \<^verbatim>\<open>glob\<close>, \<^verbatim>\<open>shutil.move\<close> and \<^verbatim>\<open>shutil.rmtree\<close> do for a directory
  name that is not the plain name of an entry of the working directory.
\<close>

record env =
  in_colab :: bool
  shlex_split :: "string \<Rightarrow> py_error + string list"
  popen :: "(string list \<times> bool) list \<Rightarrow> os_state \<Rightarrow> string list \<Rightarrow> bool \<Rightarrow> py_error + process"
  load_yaml :: "string \<Rightarrow> py_error + yaml"
  py_repr :: "yaml \<Rightarrow> string"
  beyond_cwd :: "os_state \<Rightarrow> string \<Rightarrow> (py_error + unit) \<times> os_state"

definition py_print :: "string \<Rightarrow> world \<Rightarrow> world" where
  "py_print s w = w\<lparr>console := console w @ [s]\<rparr>"

subsection \<open>run\_cmd\<close>

text \<open>
  \<^verbatim>\<open>process.stdout.readline()\<close>: the next line of the pipe, or the empty bytes
  at end of file, which decode to the empty text.
\<close>

definition readline :: "raw list \<Rightarrow> raw \<times> raw list" where
  "readline pipe = (case pipe of [] \<Rightarrow> (Text [], []) | l # ls \<Rightarrow> (l, ls))"

definition decode :: "raw \<Rightarrow> py_error + string" where
  "decode l = (case l of Text s \<Rightarrow> Inr s | Undecodable \<Rightarrow> Inl UnicodeDecodeError)"

text \<open>
  \<^verbatim>\<open>process.poll()\<close>: \<^verbatim>\<open>None\<close> while the child is still seen running,
  its exit status afterwards.
\<close>

definition poll :: "nat \<Rightarrow> int \<Rightarrow> int option" where
  "poll alive rc = (if alive = 0 then Some rc else None)"

text \<open>
  The \<^verbatim>\<open>while True\<close> loop of \<^verbatim>\<open>run_cmd\<close> (lines 52 to 57). Its state
  is the unread part of the pipe, the number of iterations for which the child is still
  running, and the world. It returns the exception raised inside it, if any, and the
  state in which it ends: the part of the pipe it left unread, the number of iterations
  for which the child would still be running (0 when the child has exited), and the
  world.
\<close>

function read_loop ::
  "bool \<Rightarrow> int \<Rightarrow> raw list \<Rightarrow> nat \<Rightarrow> world \<Rightarrow> (py_error + unit) \<times> raw list \<times> nat \<times> world" where
  "read_loop verbose rc pipe alive w =
     (case readline pipe of (line, pipe') \<Rightarrow>
        (case decode line of
           Inl e \<Rightarrow> (Inl e, pipe', alive, w)
         | Inr text \<Rightarrow>
             let output = py_strip text in
             if output = [] \<and> poll alive rc \<noteq> None then (Inr (), pipe', alive, w)
             else read_loop verbose rc pipe' (alive - 1)
                    (if output \<noteq> [] \<and> verbose then py_print output w else w)))"
  by pat_completeness auto
termination
  by (relation "measure (\<lambda>(verbose, rc, pipe, alive, w). length pipe + alive)")
     (auto simp: readline_def decode_def poll_def py_strip_def split: list.splits raw.splits if_splits)

declare read_loop.simps [simp del]

text \<open>Line 50: \<^verbatim>\<open>cmd = shlex.split(cmd) if split else [cmd]\<close>.\<close>

definition tokenize :: "env \<Rightarrow> string \<Rightarrow> bool \<Rightarrow> py_error + string list" where
  "tokenize e cmd split = (if split then shlex_split e cmd else Inr [cmd])"

text \<open>Line 60, the notice \<^verbatim>\<open>f'\tERROR ({return_code}) running command!'\<close>.\<close>

definition error_notice :: "int \<Rightarrow> string" where
  "error_notice return_code = CHR 0x09 # ''ERROR ('' @ str_int return_code @ '') running command!''"

definition run_cmd ::
  "env \<Rightarrow> string \<Rightarrow> bool \<Rightarrow> bool \<Rightarrow> bool \<Rightarrow> world \<Rightarrow> (py_error + int) \<times> world" where
  "run_cmd e cmd split shell verbose w0 =
     (let w1 = py_print (''CMD: '' @ cmd) w0 in
      case tokenize e cmd split of
        Inl err \<Rightarrow> (Inl err, w1)
      | Inr argv \<Rightarrow>
          (case popen e (spawned w1) (os w1) argv shell of
             Inl err \<Rightarrow> (Inl err, w1)
           | Inr p \<Rightarrow>
               let w2 = w1\<lparr>spawned := spawned w1 @ [(argv, shell)]\<rparr> in
               (case read_loop verbose (returncode p) (stdout_lines p) (exited_after p) w2 of
                  (Inl err, unread, left, w3) \<Rightarrow> (Inl err, w3\<lparr>os := os_after p\<rparr>)
                | (Inr _, unread, left, w3) \<Rightarrow>
                    let w4 = w3\<lparr>os := os_after p\<rparr>;
                        return_code = returncode p;
                        w5 = (if return_code \<noteq> 0 then py_print (error_notice return_code) w4
                              else w4)
                    in (Inr return_code, w5))))"

subsection \<open>run\_cmd\_list\<close>

text \<open>
  \<^verbatim>\<open>list(map(run_cmd, cmd_list))\<close>: \<^verbatim>\<open>run_cmd\<close> with its default arguments
  (\<^verbatim>\<open>split=True, shell=False, verbose=True\<close>) on each command in turn. The exit
  statuses are collected in a list that is dropped; an exception raised by a call leaves
  the remaining commands unrun.
\<close>

fun run_cmd_list :: "env \<Rightarrow> string list \<Rightarrow> world \<Rightarrow> (py_error + unit) \<times> world" where
  "run_cmd_list e [] w = (Inr (), w)"
| "run_cmd_list e (cmd # cmds) w =
     (case run_cmd e cmd True False True w of
        (Inl err, w') \<Rightarrow> (Inl err, w')
      | (Inr rc, w') \<Rightarrow> run_cmd_list e cmds w')"

subsection \<open>install\_rdkit\<close>

definition CONDA_DIR :: string where
  "CONDA_DIR = ''/usr/local/lib/python3.7/site-packages/''"

definition CONDA_URL :: string where
  "CONDA_URL = ''https://repo.continuum.io/miniconda/Miniconda3-latest-Linux-x86_64.sh''"

text \<open>
  \<^verbatim>\<open>s.split(sep)\<close> for a separator of one character: the pieces between the
  separators, at least one piece. The last alternative of the \<open>case\<close> is never taken.
\<close>

fun py_split :: "char \<Rightarrow> string \<Rightarrow> string list" where
  "py_split sep [] = [[]]"
| "py_split sep (c # cs) =
     (if c = sep then [] # py_split sep cs
      else (case py_split sep cs of p # ps \<Rightarrow> (c # p) # ps | [] \<Rightarrow> [[c]]))"

definition restart_notice :: string where
  "restart_notice =
     ''Restart your runtime and append '' @ [CHR 0x22] @ CONDA_DIR @ [CHR 0x22] @ '' to sys.path!''"

definition install_rdkit :: "env \<Rightarrow> bool \<Rightarrow> world \<Rightarrow> (py_error + unit) \<times> world" where
  "install_rdkit e force w =
     (let conda_sh = last (py_split CHR ''/'' CONDA_URL);
          cmd_list =
            [''wget -c '' @ CONDA_URL,
             ''chmod +x '' @ conda_sh,
             ''bash ./'' @ conda_sh @ '' -b -f -p /usr/local'',
             ''conda install -q -y -c conda-forge rdkit'',
             ''rm -rf '' @ conda_sh]
      in if in_colab e \<and> \<not> conda_dir_exists (os w) \<and> \<not> force then
           (case run_cmd_list e cmd_list w of
              (Inl err, w') \<Rightarrow> (Inl err, w')
            | (Inr u, w') \<Rightarrow> (Inr (), py_print restart_notice w'))
         else (Inr (), w))"

subsection \<open>pip\_install and pip\_install\_from\_conda\_yaml\<close>

text \<open>
  The operations of Python on a loaded value that the module uses, with the exceptions
  they raise: \<^verbatim>\<open>key in v\<close> and \<^verbatim>\<open>v[key]\<close> for a string \<open>key\<close>, iteration,
  and the formatting of a value inside an f-string.
\<close>

definition py_contains :: "string \<Rightarrow> yaml \<Rightarrow> py_error + bool" where
  "py_contains key v =
     (case v of
        YMap kvs \<Rightarrow> Inr (key \<in> set (map fst kvs))
      | YSeq xs \<Rightarrow> Inr (YStr key \<in> set xs)
      | YStr s \<Rightarrow> Inr (sublist key s)
      | YNull \<Rightarrow> Inl TypeError
      | YScalar t \<Rightarrow> Inl TypeError)"

definition py_getitem :: "yaml \<Rightarrow> string \<Rightarrow> py_error + yaml" where
  "py_getitem v key =
     (case v of
        YMap kvs \<Rightarrow> (case map_of kvs key of None \<Rightarrow> Inl (KeyError key) | Some x \<Rightarrow> Inr x)
      | YSeq xs \<Rightarrow> Inl TypeError
      | YStr s \<Rightarrow> Inl TypeError
      | YNull \<Rightarrow> Inl TypeError
      | YScalar t \<Rightarrow> Inl TypeError)"

definition py_iter :: "yaml \<Rightarrow> py_error + yaml list" where
  "py_iter v =
     (case v of
        YSeq xs \<Rightarrow> Inr xs
      | YMap kvs \<Rightarrow> Inr (map (\<lambda>(k, x). YStr k) kvs)
      | YStr s \<Rightarrow> Inr (map (\<lambda>c. YStr [c]) s)
      | YNull \<Rightarrow> Inl TypeError
      | YScalar t \<Rightarrow> Inl TypeError)"

definition py_str :: "env \<Rightarrow> yaml \<Rightarrow> string" where
  "py_str e v =
     (case v of
        YStr s \<Rightarrow> s
      | YScalar t \<Rightarrow> t
      | YNull \<Rightarrow> ''None''
      | YSeq xs \<Rightarrow> py_repr e v
      | YMap kvs \<Rightarrow> py_repr e v)"

text \<open>
  Line 34, \<^verbatim>\<open>[run_cmd(f'pip install {extra} {p}') for p in package_list]\<close>, over
  the items of the package list.
\<close>

fun pip_install_each :: "env \<Rightarrow> string \<Rightarrow> yaml list \<Rightarrow> world \<Rightarrow> (py_error + unit) \<times> world" where
  "pip_install_each e extra [] w = (Inr (), w)"
| "pip_install_each e extra (p # ps) w =
     (case run_cmd e (''pip install '' @ extra @ '' '' @ py_str e p) True False True w of
        (Inl err, w') \<Rightarrow> (Inl err, w')
      | (Inr rc, w') \<Rightarrow> pip_install_each e extra ps w')"

definition pip_install :: "env \<Rightarrow> yaml \<Rightarrow> bool \<Rightarrow> world \<Rightarrow> (py_error + unit) \<times> world" where
  "pip_install e package_list force w =
     (let extra = (if force then ''--upgrade --force-reinstall'' else []) in
      case py_iter package_list of
        Inl err \<Rightarrow> (Inl err, w)
      | Inr ps \<Rightarrow> pip_install_each e extra ps w)"

text \<open>
  Lines 41 to 43, the loop over the dependencies. The variable \<^verbatim>\<open>pip_config\<close>
  is threaded through; \<open>YNull\<close> is its initial \<^verbatim>\<open>None\<close>. The subscript
  \<^verbatim>\<open>item['pip']\<close> raises \<^verbatim>\<open>KeyError\<close> on a dictionary without that key.
\<close>

fun find_pip :: "yaml \<Rightarrow> yaml list \<Rightarrow> py_error + yaml" where
  "find_pip pip_config [] = Inr pip_config"
| "find_pip pip_config (item # items) =
     (case item of
        YMap kvs \<Rightarrow>
          (case py_getitem item ''pip'' of
             Inl err \<Rightarrow> Inl err
           | Inr v \<Rightarrow> if v \<noteq> YNull then find_pip v items else find_pip pip_config items)
      | YNull \<Rightarrow> find_pip pip_config items
      | YStr s \<Rightarrow> find_pip pip_config items
      | YScalar t \<Rightarrow> find_pip pip_config items
      | YSeq xs \<Rightarrow> find_pip pip_config items)"

definition pip_install_from_conda_yaml ::
  "env \<Rightarrow> string \<Rightarrow> bool \<Rightarrow> world \<Rightarrow> (py_error + unit) \<times> world" where
  "pip_install_from_conda_yaml e filename force w =
     (case load_yaml e filename of
        Inl err \<Rightarrow> (Inl err, w)
      | Inr config \<Rightarrow>
          (case py_contains ''dependencies'' config of
             Inl err \<Rightarrow> (Inl err, w)
           | Inr present \<Rightarrow>
               if \<not> present then
                 (Inl (AssertionError (filename @ '' is not a valid conda yaml'')), w)
               else
                 (case py_getitem config ''dependencies'' of
                    Inl err \<Rightarrow> (Inl err, w)
                  | Inr deps \<Rightarrow>
                      (case py_iter deps of
                         Inl err \<Rightarrow> (Inl err, w)
                       | Inr items \<Rightarrow>
                           (case find_pip YNull items of
                              Inl err \<Rightarrow> (Inl err, w)
                            | Inr pip_config \<Rightarrow>
                                if pip_config = YNull then
                                  (Inl (AssertionError (''Did not find pip in '' @ filename)), w)
                                else pip_install e pip_config force w)))))"

subsection \<open>clone\_repo\<close>

text \<open>
  \<^verbatim>\<open>s.replace(old, new)\<close>: every occurrence of \<open>old\<close>, found from the left and
  without overlap, is replaced; for an empty \<open>old\<close> Python puts \<open>new\<close> before
  every character and at the end.
\<close>

fun replace_from :: "string \<Rightarrow> string \<Rightarrow> string \<Rightarrow> string" where
  "replace_from old new [] = []"
| "replace_from old new (c # cs) =
     (if old \<noteq> [] \<and> prefix old (c # cs)
      then new @ replace_from old new (drop (length old) (c # cs))
      else c # replace_from old new cs)"

definition py_replace :: "string \<Rightarrow> string \<Rightarrow> string \<Rightarrow> string" where
  "py_replace old new s =
     (if old = [] then new @ concat (map (\<lambda>c. c # new) s) else replace_from old new s)"

text \<open>
  \<^verbatim>\<open>glob.glob(f'{repo_dir}/*')\<close>. A name is hidden when it starts with a dot; the
  pattern \<^verbatim>\<open>*\<close> does not match hidden names and matches every other name. A
  directory part with one of the characters \<^verbatim>\<open>*\<close>, \<^verbatim>\<open>?\<close>, \<^verbatim>\<open>[\<close> is
  itself a pattern; an empty one makes the pattern \<^verbatim>\<open>/*\<close>, and \<^verbatim>\<open>.\<close> and
  \<^verbatim>\<open>..\<close> are not entries. For a plain name the result is the list of the paths
  \<^verbatim>\<open>repo_dir/n\<close>, given here by the names \<open>n\<close>; it is empty when
  \<^verbatim>\<open>repo_dir\<close> is missing or is a file.
\<close>

definition hidden :: "string \<Rightarrow> bool" where
  "hidden n = (case n of [] \<Rightarrow> False | c # cs \<Rightarrow> c = CHR ''.'')"

definition has_magic :: "string \<Rightarrow> bool" where
  "has_magic d = (\<exists>c\<in>set d. c = CHR ''*'' \<or> c = CHR ''?'' \<or> c = CHR ''['')"

definition plain_name :: "string \<Rightarrow> bool" where
  "plain_name d = (d \<noteq> [] \<and> \<not> has_magic d \<and> d \<noteq> ''.'' \<and> d \<noteq> ''..'')"

definition glob_star :: "os_state \<Rightarrow> string \<Rightarrow> string list" where
  "glob_star fs d =
     (case map_of (cwd_entries fs) d of
        Some (Dir es) \<Rightarrow> filter (\<lambda>n. \<not> hidden n) (map fst es)
      | Some (File content) \<Rightarrow> []
      | None \<Rightarrow> [])"

text \<open>
  \<^verbatim>\<open>shutil.move(f'{d}/{n}', '.')\<close>: the destination is a directory, so the entry
  goes to \<^verbatim>\<open>./n\<close>; \<^verbatim>\<open>shutil.Error\<close> is raised when that path exists.
\<close>

definition shutil_move :: "os_state \<Rightarrow> string \<Rightarrow> string \<Rightarrow> py_error + os_state" where
  "shutil_move fs d n =
     (case map_of (cwd_entries fs) d of
        Some (Dir es) \<Rightarrow>
          (case map_of es n of
             Some x \<Rightarrow>
               if map_of (cwd_entries fs) n \<noteq> None then
                 Inl (ShutilError (''Destination path '' @ [CHR 0x27] @ ''./'' @ n @ [CHR 0x27] @ '' already exists''))
               else
                 Inr (fs\<lparr>cwd_entries :=
                        AList.update n x (AList.update d (Dir (AList.delete n es)) (cwd_entries fs))\<rparr>)
           | None \<Rightarrow> Inl FileNotFoundError)
      | Some (File content) \<Rightarrow> Inl FileNotFoundError
      | None \<Rightarrow> Inl FileNotFoundError)"

text \<open>Lines 74 and 75, the loop over the paths that \<^verbatim>\<open>glob\<close> returned.\<close>

fun move_all :: "os_state \<Rightarrow> string \<Rightarrow> string list \<Rightarrow> (py_error + unit) \<times> os_state" where
  "move_all fs d [] = (Inr (), fs)"
| "move_all fs d (n # ns) =
     (case shutil_move fs d n of
        Inl err \<Rightarrow> (Inl err, fs)
      | Inr fs' \<Rightarrow> move_all fs' d ns)"

text \<open>\<^verbatim>\<open>shutil.rmtree(d)\<close> for an entry of the working directory.\<close>

definition shutil_rmtree :: "os_state \<Rightarrow> string \<Rightarrow> py_error + os_state" where
  "shutil_rmtree fs d =
     (case map_of (cwd_entries fs) d of
        None \<Rightarrow> Inl FileNotFoundError
      | Some (File content) \<Rightarrow> Inl NotADirectoryError
      | Some (Dir es) \<Rightarrow> Inr (fs\<lparr>cwd_entries := AList.delete d (cwd_entries fs)\<rparr>))"

definition clone_repo :: "env \<Rightarrow> string \<Rightarrow> world \<Rightarrow> (py_error + unit) \<times> world" where
  "clone_repo e repo_url w =
     (let repo_dir = py_replace ''.git'' [] (last (py_split CHR ''/'' repo_url)) in
      case run_cmd e (''git clone '' @ repo_url) False True True w of
        (Inl err, w1) \<Rightarrow> (Inl err, w1)
      | (Inr rc, w1) \<Rightarrow>
          if plain_name repo_dir then
            (case move_all (os w1) repo_dir (glob_star (os w1) repo_dir) of
               (Inl err, fs2) \<Rightarrow> (Inl err, w1\<lparr>os := fs2\<rparr>)
             | (Inr u, fs2) \<Rightarrow>
                 (case shutil_rmtree fs2 repo_dir of
                    Inl err \<Rightarrow> (Inl err, w1\<lparr>os := fs2\<rparr>)
                  | Inr fs3 \<Rightarrow> (Inr (), w1\<lparr>os := fs3\<rparr>)))
          else
            (case beyond_cwd e (os w1) repo_dir of (r, fs2) \<Rightarrow> (r, w1\<lparr>os := fs2\<rparr>)))"

subsection \<open>Notions used to state the properties\<close>


definition echoed :: "bool \<Rightarrow> raw list \<Rightarrow> string list" where
  "echoed verbose ls = (if verbose then [py_strip s. Text s \<leftarrow> ls, py_strip s \<noteq> []] else [])"


text \<open>
  A command \<open>c\<close> runs cleanly when \<^verbatim>\<open>run_cmd(c)\<close>, called with the spawn log
  \<open>log\<close> and the file system \<open>fs\<close>, has nothing to raise: the command can be
  tokenised, the child can be spawned, and every line the child writes decodes. Nothing
  is asked of the exit status.
\<close>

definition clean_run :: "env \<Rightarrow> (string list \<times> bool) list \<Rightarrow> os_state \<Rightarrow> string \<Rightarrow> bool" where
  "clean_run e log fs c =
     (case shlex_split e c of
        Inl err \<Rightarrow> False
      | Inr argv \<Rightarrow>
          (case popen e log fs argv False of
             Inl err \<Rightarrow> False
           | Inr p \<Rightarrow> Undecodable \<notin> set (stdout_lines p)))"

text \<open>
  For the manifest: whether an item of the dependency list is a dictionary; the values
  under \<^verbatim>\<open>pip\<close> of the dictionaries of the list that have such a value other than
  \<^verbatim>\<open>None\<close>, in list order; and whether some dictionary of the list has no key
  \<^verbatim>\<open>pip\<close>.
\<close>

definition is_mapping :: "yaml \<Rightarrow> bool" where
  "is_mapping item = (case item of YMap kvs \<Rightarrow> True | YNull \<Rightarrow> False | YStr s \<Rightarrow> False
                        | YScalar t \<Rightarrow> False | YSeq xs \<Rightarrow> False)"

fun pip_entries :: "yaml list \<Rightarrow> yaml list" where
  "pip_entries [] = []"
| "pip_entries (YMap kvs # items) =
     (case map_of kvs ''pip'' of
        Some v \<Rightarrow> (if v = YNull then pip_entries items else v # pip_entries items)
      | None \<Rightarrow> pip_entries items)"
| "pip_entries (item # items) = pip_entries items"

fun mapping_without_pip :: "yaml list \<Rightarrow> bool" where
  "mapping_without_pip [] = False"
| "mapping_without_pip (YMap kvs # items) = (map_of kvs ''pip'' = None \<or> mapping_without_pip items)"
| "mapping_without_pip (item # items) = mapping_without_pip items"

subsection \<open>Concrete environments\<close>

text \<open>
  Environments on which the properties are evaluated. \<open>split_words\<close> cuts a command
  at its spaces, which is what \<^verbatim>\<open>shlex.split\<close> does to a command without quotes,
  backslashes or other white space. In \<open>simple_env\<close> what a spawn does depends on the
  argument vector only, and there is no manifest to load. The package entries of the
  manifests used below are strings and the repository name is a plain one, so that
  \<open>py_repr\<close> and \<open>beyond_cwd\<close> are never called there.
\<close>

fun split_words :: "string \<Rightarrow> string \<Rightarrow> string list" where
  "split_words cur [] = (if cur = [] then [] else [cur])"
| "split_words cur (c # cs) =
     (if c = CHR '' '' then (if cur = [] then split_words [] cs else cur # split_words [] cs)
      else split_words (cur @ [c]) cs)"

definition simple_env :: "bool \<Rightarrow> (string list \<Rightarrow> py_error + process) \<Rightarrow> env" where
  "simple_env colab prog =
     \<lparr>in_colab = colab,
      shlex_split = (\<lambda>cmd. Inr (split_words [] cmd)),
      popen = (\<lambda>log fs argv shell. prog argv),
      load_yaml = (\<lambda>filename. Inl FileNotFoundError),
      py_repr = (\<lambda>v. []),
      beyond_cwd = (\<lambda>fs d. (Inl FileNotFoundError, fs))\<rparr>"

text \<open>The same, with a manifest \<^verbatim>\<open>environment.yml\<close> that loads as \<open>m\<close>.\<close>

definition manifest_env :: "(string list \<Rightarrow> py_error + process) \<Rightarrow> yaml \<Rightarrow> env" where
  "manifest_env prog m =
     (simple_env True prog)
       \<lparr>load_yaml := (\<lambda>filename. if filename = ''environment.yml'' then Inr m
                                   else Inl FileNotFoundError)\<rparr>"

definition os0 :: os_state where
  "os0 = \<lparr>cwd_entries = [], conda_dir_exists = False\<rparr>"

definition w0 :: world where
  "w0 = \<lparr>console = [], spawned = [], os = os0\<rparr>"

definition child :: "raw list \<Rightarrow> nat \<Rightarrow> int \<Rightarrow> process" where
  "child ls alive rc = \<lparr>stdout_lines = ls, exited_after = alive, returncode = rc, os_after = os0\<rparr>"

text \<open>
  The working directory as a \<^verbatim>\<open>git clone\<close> of a repository \<^verbatim>\<open>mols\<close> leaves it:
  a file that was there before, and the cloned directory with its \<^verbatim>\<open>.git\<close>
  directory, a file and a subdirectory. \<open>git_env\<close> is an environment in which every
  spawn succeeds silently and leaves that state.
\<close>

definition after_clone :: os_state where
  "after_clone =
     \<lparr>cwd_entries =
        [(''notes.txt'', File ''n''),
         (''mols'', Dir [(''.git'', Dir [(''HEAD'', File ''ref'')]),
                         (''README.md'', File ''hello''),
                         (''src'', Dir [(''a.py'', File ''x'')])])],
      conda_dir_exists = False\<rparr>"

definition git_env :: env where
  "git_env = simple_env True (\<lambda>argv. Inr ((child [] 0 0)\<lparr>os_after := after_clone\<rparr>))"

section \<open>Facts about the reading loop and run\_cmd\<close>

lemma py_strip_Nil [simp]: "py_strip [] = []"
  by (simp add: py_strip_def)

lemma read_loop_Undecodable [simp]:
  "read_loop v rc (Undecodable # ls) alive w = (Inl UnicodeDecodeError, ls, alive, w)"
  by (simp add: read_loop.simps readline_def decode_def)

lemma read_loop_Text [simp]:
  "read_loop v rc (Text s # ls) alive w =
     (if py_strip s = [] \<and> alive = 0 then (Inr (), ls, 0, w)
      else read_loop v rc ls (alive - 1)
             (if py_strip s \<noteq> [] \<and> v then py_print (py_strip s) w else w))"
  by (subst read_loop.simps) (simp add: readline_def decode_def poll_def)

lemma read_loop_Nil [simp]: "read_loop v rc [] alive w = (Inr (), [], 0, w)"
proof (induction alive)
  case 0
  show ?case by (subst read_loop.simps) (simp add: readline_def decode_def poll_def)
next
  case (Suc k)
  then show ?case by (subst read_loop.simps) (simp add: readline_def decode_def poll_def)
qed

lemma echoed_Nil [simp]: "echoed v [] = []"
  by (simp add: echoed_def)

lemma echoed_Text [simp]:
  "echoed v (Text s # ls) = (if v \<and> py_strip s \<noteq> [] then py_strip s # echoed v ls else echoed v ls)"
  by (simp add: echoed_def)

lemma echoed_quiet [simp]: "echoed False ls = []"
  by (simp add: echoed_def)


lemma read_loop_decodable:
  "Undecodable \<notin> set ls \<Longrightarrow> \<exists>rest w'. read_loop v rc ls alive w = (Inr (), rest, 0, w')"
proof (induction ls arbitrary: alive w)
  case Nil
  then show ?case by simp
next
  case (Cons l ls)
  then show ?case by (cases l) auto
qed

text \<open>
  Neither the flag \<open>verbose\<close> nor the world changes what the loop returns or how
  far it reads; the loop changes the world by printing only, and only when \<open>verbose\<close>.
\<close>

lemma read_loop_shape:
  "\<exists>r rest left out. \<forall>v w. read_loop v rc ls alive w =
      (r, rest, left, w\<lparr>console := console w @ (if v then out else [])\<rparr>)"
proof (induction ls arbitrary: alive)
  case Nil
  have "\<forall>v w. read_loop v rc [] alive w = (Inr (), [], 0, w\<lparr>console := console w @ (if v then [] else [])\<rparr>)"
    by simp
  then show ?case by blast
next
  case (Cons l ls)
  show ?case
  proof (cases l)
    case Undecodable
    have "\<forall>v w. read_loop v rc (l # ls) alive w =
        (Inl UnicodeDecodeError, ls, alive, w\<lparr>console := console w @ (if v then [] else [])\<rparr>)"
      using Undecodable by simp
    then show ?thesis by blast
  next
    case (Text s)
    show ?thesis
    proof (cases "py_strip s = [] \<and> alive = 0")
      case True
      have "\<forall>v w. read_loop v rc (l # ls) alive w =
          (Inr (), ls, 0, w\<lparr>console := console w @ (if v then [] else [])\<rparr>)"
        using True Text by simp
      then show ?thesis by blast
    next
      case False
      from Cons.IH [of "alive - Suc 0"] obtain r rest left out where
        ih: "\<And>v w. read_loop v rc ls (alive - Suc 0) w =
               (r, rest, left, w\<lparr>console := console w @ (if v then out else [])\<rparr>)"
        by blast
      let ?out = "(if py_strip s \<noteq> [] then [py_strip s] else []) @ out"
      have "\<forall>v w. read_loop v rc (l # ls) alive w =
          (r, rest, left, w\<lparr>console := console w @ (if v then ?out else [])\<rparr>)"
        using False Text by (auto simp: ih py_print_def)
      then show ?thesis by blast
    qed
  qed
qed


lemma read_loop_nonblank:
  "\<forall>s\<in>set texts. py_strip s \<noteq> [] \<Longrightarrow>
     read_loop True rc (map Text texts) alive w =
       (Inr (), [], 0, w\<lparr>console := console w @ map py_strip texts\<rparr>)"
proof (induction texts arbitrary: alive w)
  case Nil
  then show ?case by simp
next
  case (Cons s texts)
  then show ?case by (simp add: py_print_def)
qed

lemma read_loop_keeps:
  "read_loop v rc ls alive w = (r, rest, left, w') \<Longrightarrow> spawned w' = spawned w \<and> os w' = os w"
  using read_loop_shape [of rc ls alive] by auto

text \<open>What \<open>run_cmd\<close> does once the child is spawned, in terms of the loop.\<close>

lemma run_cmd_spawned:
  assumes "tokenize e cmd split = Inr argv"
      and "popen e (spawned w) (os w) argv shell = Inr p"
      and "read_loop verbose (returncode p) (stdout_lines p) (exited_after p)
             (w\<lparr>console := console w @ [''CMD: '' @ cmd], spawned := spawned w @ [(argv, shell)]\<rparr>)
           = (r, rest, left, w')"
  shows "run_cmd e cmd split shell verbose w =
     (case r of
        Inl err \<Rightarrow> (Inl err, w'\<lparr>os := os_after p\<rparr>)
      | Inr u \<Rightarrow> (Inr (returncode p),
          if returncode p \<noteq> 0
          then w'\<lparr>console := console w' @ [error_notice (returncode p)], os := os_after p\<rparr>
          else w'\<lparr>os := os_after p\<rparr>))"
  using assms by (cases r) (simp_all add: run_cmd_def py_print_def Let_def)

lemma run_cmd_not_spawned:
  "tokenize e cmd split = Inl err \<Longrightarrow>
     run_cmd e cmd split shell verbose w = (Inl err, w\<lparr>console := console w @ [''CMD: '' @ cmd]\<rparr>)"
  "tokenize e cmd split = Inr argv \<Longrightarrow> popen e (spawned w) (os w) argv shell = Inl err \<Longrightarrow>
     run_cmd e cmd split shell verbose w = (Inl err, w\<lparr>console := console w @ [''CMD: '' @ cmd]\<rparr>)"
  by (simp_all add: run_cmd_def py_print_def)

section \<open>Properties of run\_cmd\<close>

text \<open>
  Claim C1, as the code has it. A spawned command whose process exits with status 0,
  whose output decodes as UTF-8 and has no blank line (no line that is empty once
  stripped): \<^verbatim>\<open>run_cmd\<close> with \<^verbatim>\<open>verbose=True\<close> returns 0 and prints,
  after the \<^verbatim>\<open>CMD:\<close> header, every line the process wrote, stripped of leading
  and trailing white space, in the order the lines were written, and nothing else.
\<close>

theorem run_cmd_echoes_nonblank_output:
  assumes "tokenize e cmd split = Inr argv"
      and "popen e (spawned w) (os w) argv shell = Inr p"
      and "returncode p = 0"
      and "stdout_lines p = map Text texts"
      and "\<forall>s\<in>set texts. py_strip s \<noteq> []"
  shows "run_cmd e cmd split shell True w =
     (Inr 0, w\<lparr>console := console w @ [''CMD: '' @ cmd] @ map py_strip texts,
                spawned := spawned w @ [(argv, shell)],
                os := os_after p\<rparr>)"
proof -
  let ?w2 = "w\<lparr>console := console w @ [''CMD: '' @ cmd], spawned := spawned w @ [(argv, shell)]\<rparr>"
  have "read_loop True (returncode p) (stdout_lines p) (exited_after p) ?w2 =
      (Inr (), [], 0, ?w2\<lparr>console := console ?w2 @ map py_strip texts\<rparr>)"
    using assms(4,5) by (simp add: read_loop_nonblank)
  from run_cmd_spawned [OF assms(1,2) this] assms(3) show ?thesis by simp
qed

text \<open>
  Claim C1, an instance: two lines, the second indented, read around the exit of the
  child.
\<close>

theorem run_cmd_echoes_nonblank_output_witness:
  "run_cmd (simple_env True (\<lambda>argv. Inr (child [Text (''hello'' @ [CHR 0x0A]), Text (''  world'' @ [CHR 0x0A])] 1 0)))
      ''echo hi'' True False True w0 =
   (Inr 0, w0\<lparr>console := [''CMD: echo hi'', ''hello'', ''world''],
               spawned := [([''echo'', ''hi''], False)]\<rparr>)"
proof -
  let ?p = "child [Text (''hello'' @ [CHR 0x0A]), Text (''  world'' @ [CHR 0x0A])] 1 0"
  let ?e = "simple_env True (\<lambda>argv. Inr ?p)"
  have 1: "tokenize ?e ''echo hi'' True = Inr [''echo'', ''hi'']"
    by (simp add: tokenize_def simple_env_def)
  have 2: "popen ?e (spawned w0) (os w0) [''echo'', ''hi''] False = Inr ?p"
    by (simp add: simple_env_def)
  have 3: "returncode ?p = 0"
    by (simp add: child_def)
  have 4: "stdout_lines ?p = map Text [''hello'' @ [CHR 0x0A], ''  world'' @ [CHR 0x0A]]"
    by (simp add: child_def)
  have 5: "\<forall>s\<in>set [''hello'' @ [CHR 0x0A], ''  world'' @ [CHR 0x0A]]. py_strip s \<noteq> []"
    by (simp add: py_strip_def isspace_def)
  from run_cmd_echoes_nonblank_output [OF 1 2 3 4 5] show ?thesis
    by (simp add: w0_def child_def py_strip_def isspace_def)
qed

text \<open>
  Claim C1 as stated fails. The child exits with status 0 after writing three lines:
  an indented \<^verbatim>\<open>a\<close>, an empty line and \<^verbatim>\<open>b\<close>, and has exited when the
  empty line is read. \<^verbatim>\<open>run_cmd\<close> returns 0 but prints \<^verbatim>\<open>a\<close> without its
  indentation, does not print the empty line, and never reads or prints \<^verbatim>\<open>b\<close>.
\<close>

theorem run_cmd_echo_counterexample:
  "run_cmd (simple_env True (\<lambda>argv. Inr (child [Text (''  a'' @ [CHR 0x0A]), Text [CHR 0x0A], Text (''b'' @ [CHR 0x0A])] 1 0)))
      ''printf'' True False True w0 =
   (Inr 0, w0\<lparr>console := [''CMD: printf'', ''a''], spawned := [([''printf''], False)]\<rparr>)"
  by (simp add: run_cmd_def tokenize_def simple_env_def child_def w0_def py_print_def
        py_strip_def isspace_def)


lemma sublist_notice: "sublist (str_int n) (error_notice n)"
  unfolding sublist_def error_notice_def
  by (rule exI [of _ "CHR 0x09 # ''ERROR (''"], rule exI [of _ "'') running command!''"]) simp

text \<open>
  Claim C2, as the code has it. A spawned command whose output decodes as UTF-8 and
  whose process exits with a status \<open>n\<close> other than 0: \<^verbatim>\<open>run_cmd\<close> returns
  \<open>n\<close> without raising, and the last thing it prints is the error notice, which
  contains the decimal digits of \<open>n\<close>.
\<close>

theorem run_cmd_reports_nonzero_status:
  assumes "tokenize e cmd split = Inr argv"
      and "popen e (spawned w) (os w) argv shell = Inr p"
      and "returncode p = n" and "n \<noteq> 0"
      and "Undecodable \<notin> set (stdout_lines p)"
  shows "fst (run_cmd e cmd split shell verbose w) = Inr n \<and>
         (\<exists>out. console (snd (run_cmd e cmd split shell verbose w)) =
                  console w @ [''CMD: '' @ cmd] @ out @ [error_notice n]) \<and>
         sublist (str_int n) (error_notice n)"
proof -
  let ?w2 = "w\<lparr>console := console w @ [''CMD: '' @ cmd], spawned := spawned w @ [(argv, shell)]\<rparr>"
  from read_loop_decodable [OF assms(5)] obtain rest w' where
    run: "read_loop verbose (returncode p) (stdout_lines p) (exited_after p) ?w2 = (Inr (), rest, 0, w')"
    by blast
  from read_loop_shape [of "returncode p" "stdout_lines p" "exited_after p"] run
  obtain out where w': "w' = ?w2\<lparr>console := console ?w2 @ out\<rparr>"
    by (metis prod.inject)
  from run_cmd_spawned [OF assms(1,2) run] assms(3,4) w' show ?thesis
    by (simp add: sublist_notice)
qed


lemma str_int_examples:
  "str_int 3 = ''3''" "str_int 127 = ''127''" "str_int (- 9) = ''-9''" "str_int 0 = ''0''"
  by (simp_all add: str_int_def digits.simps)

text \<open>
  Claim C2, an instance: exit status 3 after one line of output.
\<close>

theorem run_cmd_reports_nonzero_status_witness:
  "fst (run_cmd (simple_env True (\<lambda>argv. Inr (child [Text ''no such file\<newline>''] 2 3)))
          ''ls nowhere'' True False True w0) = Inr 3 \<and>
   console (snd (run_cmd (simple_env True (\<lambda>argv. Inr (child [Text ''no such file\<newline>''] 2 3)))
          ''ls nowhere'' True False True w0)) =
     [''CMD: ls nowhere'', ''no such file'', CHR 0x09 # ''ERROR (3) running command!'']"
proof -
  let ?p = "child [Text ''no such file\<newline>''] 2 3"
  let ?e = "simple_env True (\<lambda>argv. Inr ?p)"
  have 1: "tokenize ?e ''ls nowhere'' True = Inr [''ls'', ''nowhere'']"
    by (simp add: tokenize_def simple_env_def)
  have 2: "popen ?e (spawned w0) (os w0) [''ls'', ''nowhere''] False = Inr ?p"
    by (simp add: simple_env_def)
  have 3: "returncode ?p = 3" "(3::int) \<noteq> 0" "Undecodable \<notin> set (stdout_lines ?p)"
    by (simp_all add: child_def)
  from run_cmd_reports_nonzero_status [OF 1 2 3, of True] show ?thesis
    by (simp add: run_cmd_def tokenize_def simple_env_def child_def w0_def py_print_def
        py_strip_def isspace_def error_notice_def str_int_def digits.simps)
qed

text \<open>
  Claim C2 as stated fails. The child exits with status 3 after writing a line that is
  not UTF-8: decoding the line raises \<^verbatim>\<open>UnicodeDecodeError\<close> out of
  \<^verbatim>\<open>run_cmd\<close>, which neither returns 3 nor prints the error notice.
\<close>

theorem run_cmd_raises_counterexample:
  "run_cmd (simple_env True (\<lambda>argv. Inr (child [Undecodable] 0 3))) ''cat blob'' True False True w0 =
     (Inl UnicodeDecodeError,
      w0\<lparr>console := [''CMD: cat blob''], spawned := [([''cat'', ''blob''], False)]\<rparr>)"
  by (simp add: run_cmd_def tokenize_def simple_env_def child_def w0_def py_print_def)









section \<open>Properties of run\_cmd\_list\<close>

lemma run_cmd_returns:
  assumes "run_cmd e cmd split shell v w = (Inr rc, w')"
  shows "\<exists>argv. tokenize e cmd split = Inr argv \<and> spawned w' = spawned w @ [(argv, shell)]"
proof (cases "tokenize e cmd split")
  case (Inl err)
  with assms show ?thesis by (simp add: run_cmd_not_spawned)
next
  case (Inr argv)
  show ?thesis
  proof (cases "popen e (spawned w) (os w) argv shell")
    case (Inl err)
    with Inr assms show ?thesis by (simp add: run_cmd_not_spawned)
  next
    case p: (Inr p)
    let ?w2 = "w\<lparr>console := console w @ [''CMD: '' @ cmd], spawned := spawned w @ [(argv, shell)]\<rparr>"
    obtain r rest left w3 where
      loop: "read_loop v (returncode p) (stdout_lines p) (exited_after p) ?w2 = (r, rest, left, w3)"
      by (cases "read_loop v (returncode p) (stdout_lines p) (exited_after p) ?w2") auto
    from read_loop_keeps [OF loop] have "spawned w3 = spawned w @ [(argv, shell)]" by simp
    with run_cmd_spawned [OF Inr p loop] assms Inr show ?thesis
      by (cases r) (auto split: if_splits)
  qed
qed

lemma run_cmd_list_spawned:
  "fst (run_cmd_list e cmds w) = Inr () \<Longrightarrow>
     \<exists>log. spawned (snd (run_cmd_list e cmds w)) = spawned w @ log \<and>
           map (\<lambda>(argv, sh). (Inr argv, sh)) log = map (\<lambda>c. (shlex_split e c, False)) cmds"
proof (induction cmds arbitrary: w)
  case Nil
  then show ?case by simp
next
  case (Cons c cmds)
  obtain r w1 where c: "run_cmd e c True False True w = (r, w1)"
    by (cases "run_cmd e c True False True w") auto
  with Cons.prems obtain rc where r: "r = Inr rc"
    by (cases r) auto
  from run_cmd_returns [OF c [unfolded r]] obtain argv where
    argv: "shlex_split e c = Inr argv" "spawned w1 = spawned w @ [(argv, False)]"
    by (auto simp: tokenize_def)
  from Cons.prems c r have "fst (run_cmd_list e cmds w1) = Inr ()" by simp
  from Cons.IH [OF this] obtain log where
    "spawned (snd (run_cmd_list e cmds w1)) = spawned w1 @ log"
    "map (\<lambda>(argv, sh). (Inr argv, sh)) log = map (\<lambda>c. (shlex_split e c, False)) cmds"
    by blast
  with argv c r show ?case
    by (intro exI [of _ "(argv, False) # log"]) simp
qed

lemma run_cmd_list_foldl:
  "fst (run_cmd_list e cmds w) = Inr () \<Longrightarrow>
     snd (run_cmd_list e cmds w) = foldl (\<lambda>w c. snd (run_cmd e c True False True w)) w cmds"
proof (induction cmds arbitrary: w)
  case Nil
  then show ?case by simp
next
  case (Cons c cmds)
  obtain r w1 where c: "run_cmd e c True False True w = (r, w1)"
    by (cases "run_cmd e c True False True w") auto
  with Cons.prems obtain rc where r: "r = Inr rc"
    by (cases r) auto
  from Cons.prems c r have "fst (run_cmd_list e cmds w1) = Inr ()" by simp
  from Cons.IH [OF this] c r show ?case by simp
qed

lemma run_cmd_clean:
  assumes "clean_run e (spawned w) (os w) c"
  shows "\<exists>rc. fst (run_cmd e c True False True w) = Inr rc"
proof -
  from assms obtain argv p where
    tok: "tokenize e c True = Inr argv" and p: "popen e (spawned w) (os w) argv False = Inr p"
    and dec: "Undecodable \<notin> set (stdout_lines p)"
    by (auto simp: clean_run_def tokenize_def split: sum.splits)
  let ?w2 = "w\<lparr>console := console w @ [''CMD: '' @ c], spawned := spawned w @ [(argv, False)]\<rparr>"
  from read_loop_decodable [OF dec] obtain rest w' where
    "read_loop True (returncode p) (stdout_lines p) (exited_after p) ?w2 = (Inr (), rest, 0, w')"
    by blast
  from run_cmd_spawned [OF tok p this] show ?thesis by simp
qed

lemma run_cmd_list_clean:
  "\<forall>c\<in>set cmds. \<forall>log fs. clean_run e log fs c \<Longrightarrow> fst (run_cmd_list e cmds w) = Inr ()"
proof (induction cmds arbitrary: w)
  case Nil
  then show ?case by simp
next
  case (Cons c cmds)
  then have "clean_run e (spawned w) (os w) c" by simp
  from run_cmd_clean [OF this] obtain rc where "fst (run_cmd e c True False True w) = Inr rc"
    by blast
  then obtain w1 where "run_cmd e c True False True w = (Inr rc, w1)"
    by (cases "run_cmd e c True False True w") auto
  with Cons show ?case by simp
qed

text \<open>
  Claim C3, as the code has it. When \<^verbatim>\<open>run_cmd_list\<close> returns, that is when no
  call of \<^verbatim>\<open>run_cmd\<close> raised, it has called \<^verbatim>\<open>run_cmd\<close> on every command
  once, in list order, whatever the exit statuses were: the world it leaves is the one
  obtained by running the commands one after the other, and the spawn log has grown by
  one child per command, in list order, each with the tokens of its command. And it
  does return when every command of the list runs cleanly in every state, whatever the
  exit statuses.
\<close>

theorem run_cmd_list_runs_every_command:
  "(fst (run_cmd_list e cmds w) = Inr () \<longrightarrow>
      snd (run_cmd_list e cmds w) = foldl (\<lambda>w c. snd (run_cmd e c True False True w)) w cmds \<and>
      (\<exists>log. spawned (snd (run_cmd_list e cmds w)) = spawned w @ log \<and>
         map (\<lambda>(argv, sh). (Inr argv, sh)) log = map (\<lambda>c. (shlex_split e c, False)) cmds)) \<and>
   ((\<forall>c\<in>set cmds. \<forall>log fs. clean_run e log fs c) \<longrightarrow> fst (run_cmd_list e cmds w) = Inr ())"
  using run_cmd_list_foldl run_cmd_list_spawned run_cmd_list_clean by blast

text \<open>
  Claim C3, an instance: both commands run cleanly, the first exits with status 1 and
  the second is run all the same.
\<close>

theorem run_cmd_list_runs_every_command_witness:
  "run_cmd_list
     (simple_env True (\<lambda>argv. if argv = [''false''] then Inr (child [] 0 1) else Inr (child [Text ''f.txt\<newline>''] 0 0)))
     [''false'', ''ls''] w0 =
   (Inr (), w0\<lparr>console := [''CMD: false'', CHR 0x09 # ''ERROR (1) running command!'', ''CMD: ls'', ''f.txt''],
               spawned := [([''false''], False), ([''ls''], False)]\<rparr>)"
proof -
  let ?e = "simple_env True (\<lambda>argv. if argv = [''false''] then Inr (child [] 0 1) else Inr (child [Text ''f.txt\<newline>''] 0 0))"
  have clean: "\<forall>c\<in>set [''false'', ''ls'']. \<forall>log fs. clean_run ?e log fs c"
    by (simp add: clean_run_def simple_env_def child_def)
  have run: "snd (run_cmd_list ?e [''false'', ''ls''] w0) =
     w0\<lparr>console := [''CMD: false'', CHR 0x09 # ''ERROR (1) running command!'', ''CMD: ls'', ''f.txt''],
               spawned := [([''false''], False), ([''ls''], False)]\<rparr>"
    by (simp add: run_cmd_def tokenize_def simple_env_def child_def w0_def py_print_def
        py_strip_def isspace_def error_notice_def str_int_def digits.simps)
  from run_cmd_list_runs_every_command [of ?e "[''false'', ''ls'']" w0] clean
  have "fst (run_cmd_list ?e [''false'', ''ls''] w0) = Inr ()" by blast
  with run show ?thesis by (simp add: prod_eq_iff)
qed

text \<open>
  Claim C3 as stated fails. The first command names a program that does not exist, so
  that \<^verbatim>\<open>Popen\<close> raises \<^verbatim>\<open>FileNotFoundError\<close>: the exception leaves
  \<^verbatim>\<open>run_cmd_list\<close>, and \<^verbatim>\<open>run_cmd\<close> is never called on the second command.
\<close>

theorem run_cmd_list_stops_counterexample:
  "run_cmd_list
     (simple_env True (\<lambda>argv. if argv = [''nosuch''] then Inl FileNotFoundError else Inr (child [] 0 0)))
     [''nosuch'', ''ls''] w0 =
   (Inl FileNotFoundError, w0\<lparr>console := [''CMD: nosuch'']\<rparr>)"
  by (simp add: run_cmd_def tokenize_def simple_env_def child_def w0_def py_print_def)

section \<open>Properties of install\_rdkit\<close>

lemma conda_sh: "last (py_split CHR ''/'' CONDA_URL) = ''Miniconda3-latest-Linux-x86_64.sh''"
  by (simp add: CONDA_URL_def)

text \<open>
  Claim C9. If \<^verbatim>\<open>install_rdkit\<close> changes the world at all (prints or spawns),
  then the code runs in Colab, the conda directory does not exist and \<^verbatim>\<open>force\<close>
  is false. With \<^verbatim>\<open>force=True\<close> it returns at once and leaves the world as it
  was. When the three conditions hold it runs \<^verbatim>\<open>run_cmd_list\<close> on the five
  bootstrap commands.
\<close>

theorem install_rdkit_guard:
  "(snd (install_rdkit e force w) \<noteq> w \<longrightarrow> in_colab e \<and> \<not> conda_dir_exists (os w) \<and> \<not> force) \<and>
   install_rdkit e True w = (Inr (), w) \<and>
   (in_colab e \<and> \<not> conda_dir_exists (os w) \<and> \<not> force \<longrightarrow>
      install_rdkit e force w =
        (case run_cmd_list e
                [''wget -c https://repo.continuum.io/miniconda/Miniconda3-latest-Linux-x86_64.sh'',
                 ''chmod +x Miniconda3-latest-Linux-x86_64.sh'',
                 ''bash ./Miniconda3-latest-Linux-x86_64.sh -b -f -p /usr/local'',
                 ''conda install -q -y -c conda-forge rdkit'',
                 ''rm -rf Miniconda3-latest-Linux-x86_64.sh''] w of
           (Inl err, w') \<Rightarrow> (Inl err, w')
         | (Inr u, w') \<Rightarrow> (Inr (), py_print restart_notice w')))"
  by (simp add: install_rdkit_def conda_sh Let_def del: run_cmd_list.simps)
     (simp add: CONDA_URL_def del: run_cmd_list.simps)

text \<open>
  Claim C9, an instance: in Colab, without the conda directory, every command succeeding.
\<close>

theorem install_rdkit_guard_witness:
  "snd (install_rdkit (simple_env True (\<lambda>argv. Inr (child [] 0 0))) False w0) \<noteq> w0 \<and>
   in_colab (simple_env True (\<lambda>argv. Inr (child [] 0 0))) \<and> \<not> conda_dir_exists (os w0) \<and>
   install_rdkit (simple_env True (\<lambda>argv. Inr (child [] 0 0))) True w0 = (Inr (), w0) \<and>
   console (snd (install_rdkit (simple_env True (\<lambda>argv. Inr (child [] 0 0))) False w0)) =
     [''CMD: wget -c https://repo.continuum.io/miniconda/Miniconda3-latest-Linux-x86_64.sh'',
      ''CMD: chmod +x Miniconda3-latest-Linux-x86_64.sh'',
      ''CMD: bash ./Miniconda3-latest-Linux-x86_64.sh -b -f -p /usr/local'',
      ''CMD: conda install -q -y -c conda-forge rdkit'',
      ''CMD: rm -rf Miniconda3-latest-Linux-x86_64.sh'',
      ''Restart your runtime and append \"/usr/local/lib/python3.7/site-packages/\" to sys.path!'']"
proof -
  let ?e = "simple_env True (\<lambda>argv. Inr (child [] 0 0))"
  have c: "in_colab ?e \<and> \<not> conda_dir_exists (os w0) \<and> \<not> False"
    by (simp add: simple_env_def w0_def os0_def)
  have r: "\<And>cmd w. run_cmd ?e cmd True False True w =
      (Inr 0, w\<lparr>console := console w @ [''CMD: '' @ cmd], spawned := spawned w @ [(split_words [] cmd, False)], os := os0\<rparr>)"
    by (simp add: run_cmd_def tokenize_def simple_env_def child_def py_print_def)
  from install_rdkit_guard [of ?e False w0] c show ?thesis
    by (simp add: r w0_def py_print_def restart_notice_def CONDA_DIR_def os0_def)
qed

section \<open>Facts about the manifest routines\<close>

lemma pip_install_each_run_cmd_list:
  "pip_install_each e extra ps w =
     run_cmd_list e (map (\<lambda>p. ''pip install '' @ extra @ '' '' @ py_str e p) ps) w"
  by (induction ps arbitrary: w) (auto split: prod.splits sum.splits)

lemma find_pip_KeyError:
  "mapping_without_pip items \<Longrightarrow> find_pip cfg items = Inl (KeyError ''pip'')"
proof (induction items arbitrary: cfg)
  case Nil
  then show ?case by simp
next
  case (Cons item items)
  then show ?case
    by (cases item) (auto simp: py_getitem_def split: option.splits)
qed

lemma find_pip_last:
  "\<not> mapping_without_pip items \<Longrightarrow> find_pip cfg items = Inr (last (cfg # pip_entries items))"
proof (induction items arbitrary: cfg)
  case Nil
  then show ?case by simp
next
  case (Cons item items)
  then show ?case
    by (cases item) (auto simp: py_getitem_def split: option.splits)
qed





section \<open>Properties of pip\_install\_from\_conda\_yaml\<close>

lemma manifest_scan:
  assumes "load_yaml e filename = Inr (YMap m)"
      and "map_of m ''dependencies'' = Some (YSeq items)"
  shows "pip_install_from_conda_yaml e filename force w =
     (case find_pip YNull items of
        Inl err \<Rightarrow> (Inl err, w)
      | Inr pip_config \<Rightarrow>
          if pip_config = YNull then (Inl (AssertionError (''Did not find pip in '' @ filename)), w)
          else pip_install e pip_config force w)"
proof -
  from assms(2) have "''dependencies'' \<in> set (map fst m)"
    by (metis map_of_eq_None_iff option.distinct(1) set_map)
  with assms show ?thesis
    by (simp add: pip_install_from_conda_yaml_def py_contains_def py_getitem_def py_iter_def)
qed

lemma pip_entries_single:
  "\<forall>item\<in>set (pre @ post). \<not> is_mapping item \<Longrightarrow> map_of kvs ''pip'' = Some v \<Longrightarrow> v \<noteq> YNull \<Longrightarrow>
     pip_entries (pre @ YMap kvs # post) = [v] \<and> \<not> mapping_without_pip (pre @ YMap kvs # post)"
proof (induction pre)
  case Nil
  have "pip_entries post = [] \<and> \<not> mapping_without_pip post" using Nil(1)
  proof (induction post)
    case Nil
    then show ?case by simp
  next
    case (Cons a post)
    then show ?case by (cases a) (auto simp: is_mapping_def)
  qed
  with Nil show ?case by simp
next
  case (Cons a pre)
  then show ?case by (cases a) (auto simp: is_mapping_def)
qed

text \<open>
  Claim C4, as the code has it. The manifest has a dependency list with one dictionary
  among its items, and that dictionary holds a list of package names under
  \<^verbatim>\<open>pip\<close>. Then \<^verbatim>\<open>pip_install_from_conda_yaml\<close> is \<^verbatim>\<open>run_cmd\<close> on one
  \<^verbatim>\<open>pip install\<close> command per name, in the order of the manifest. When it
  returns, that is when no call of \<^verbatim>\<open>run_cmd\<close> raised, the spawn log has grown by
  exactly one child per name, in that order, each with the tokens of its command. And
  it does return when every one of these commands runs cleanly in every state, whatever
  the exit statuses.
\<close>

theorem pip_install_from_conda_yaml_one_command_each:
  assumes "load_yaml e filename = Inr (YMap m)"
      and "map_of m ''dependencies'' = Some (YSeq (pre @ YMap kvs # post))"
      and "map_of kvs ''pip'' = Some (YSeq (map YStr names))"
      and "\<forall>item\<in>set (pre @ post). \<not> is_mapping item"
  shows "pip_install_from_conda_yaml e filename force w =
           run_cmd_list e
             (map (\<lambda>n. ''pip install '' @ (if force then ''--upgrade --force-reinstall'' else []) @ '' '' @ n) names) w
       \<and> (fst (pip_install_from_conda_yaml e filename force w) = Inr () \<longrightarrow>
           (\<exists>log. spawned (snd (pip_install_from_conda_yaml e filename force w)) = spawned w @ log \<and>
             map (\<lambda>(argv, sh). (Inr argv, sh)) log =
               map (\<lambda>n. (shlex_split e
                   (''pip install '' @ (if force then ''--upgrade --force-reinstall'' else []) @ '' '' @ n), False))
                 names))
       \<and> ((\<forall>n\<in>set names. \<forall>log fs. clean_run e log fs
               (''pip install '' @ (if force then ''--upgrade --force-reinstall'' else []) @ '' '' @ n)) \<longrightarrow>
           fst (pip_install_from_conda_yaml e filename force w) = Inr ())"
proof -
  let ?extra = "if force then ''--upgrade --force-reinstall'' else []"
  let ?cmds = "map (\<lambda>n. ''pip install '' @ ?extra @ '' '' @ n) names"
  from pip_entries_single [OF assms(4,3)]
  have one: "pip_entries (pre @ YMap kvs # post) = [YSeq (map YStr names)]"
    and ok: "\<not> mapping_without_pip (pre @ YMap kvs # post)"
    by simp_all
  have "(map (\<lambda>p. ''pip install '' @ ?extra @ '' '' @ py_str e p) (map YStr names)) = ?cmds"
    by (simp add: py_str_def comp_def)
  then have eq: "pip_install_from_conda_yaml e filename force w = run_cmd_list e ?cmds w"
    unfolding manifest_scan [OF assms(1,2)] find_pip_last [OF ok] one
    by (simp add: pip_install_def py_iter_def pip_install_each_run_cmd_list Let_def del: map_map)
  have log: "\<exists>log. spawned (snd (run_cmd_list e ?cmds w)) = spawned w @ log \<and>
             map (\<lambda>(argv, sh). (Inr argv, sh)) log =
               map (\<lambda>n. (shlex_split e (''pip install '' @ ?extra @ '' '' @ n), False)) names"
    if "fst (run_cmd_list e ?cmds w) = Inr ()"
    using run_cmd_list_spawned [OF that] by (simp add: comp_def)
  have ret: "fst (run_cmd_list e ?cmds w) = Inr ()"
    if "\<forall>n\<in>set names. \<forall>log fs. clean_run e log fs (''pip install '' @ ?extra @ '' '' @ n)"
    using that by (intro run_cmd_list_clean) simp
  from eq log ret show ?thesis by simp
qed

text \<open>
  Claim C4, an instance: two packages after a conda dependency; the first install exits
  with status 1 and the second is issued all the same.
\<close>

theorem pip_install_from_conda_yaml_one_command_each_witness:
  "pip_install_from_conda_yaml
     (manifest_env (\<lambda>argv. if argv = [''pip'', ''install'', ''rdkit''] then Inr (child [] 0 1) else Inr (child [] 0 0))
        (YMap [(''name'', YStr ''chem''),
               (''dependencies'', YSeq [YStr ''numpy'', YMap [(''pip'', YSeq (map YStr [''rdkit'', ''mols2grid'']))]])]))
     ''environment.yml'' False w0 =
   (Inr (), w0\<lparr>console := [''CMD: pip install  rdkit'', CHR 0x09 # ''ERROR (1) running command!'',
                           ''CMD: pip install  mols2grid''],
               spawned := [([''pip'', ''install'', ''rdkit''], False), ([''pip'', ''install'', ''mols2grid''], False)]\<rparr>)"
proof -
  let ?prog = "\<lambda>argv. if argv = [''pip'', ''install'', ''rdkit''] then Inr (child [] 0 1) else Inr (child [] 0 0)"
  let ?m = "[(''name'', YStr ''chem''),
             (''dependencies'', YSeq [YStr ''numpy'', YMap [(''pip'', YSeq (map YStr [''rdkit'', ''mols2grid'']))]])]"
  let ?e = "manifest_env ?prog (YMap ?m)"
  let ?res = "(Inr (), w0\<lparr>console := [''CMD: pip install  rdkit'', CHR 0x09 # ''ERROR (1) running command!'',
                           ''CMD: pip install  mols2grid''],
               spawned := [([''pip'', ''install'', ''rdkit''], False), ([''pip'', ''install'', ''mols2grid''], False)]\<rparr>)"
  have 1: "load_yaml ?e ''environment.yml'' = Inr (YMap ?m)"
    by (simp add: manifest_env_def)
  have 2: "map_of ?m ''dependencies'' =
      Some (YSeq ([YStr ''numpy''] @ YMap [(''pip'', YSeq (map YStr [''rdkit'', ''mols2grid'']))] # []))"
    by simp
  have 3: "map_of [(''pip'', YSeq (map YStr [''rdkit'', ''mols2grid'']))] ''pip'' =
      Some (YSeq (map YStr [''rdkit'', ''mols2grid'']))"
    by simp
  have 4: "\<forall>item\<in>set ([YStr ''numpy''] @ []). \<not> is_mapping item"
    by (simp add: is_mapping_def)
  have run: "pip_install_from_conda_yaml ?e ''environment.yml'' False w0 = ?res"
    by (simp add: pip_install_from_conda_yaml_def manifest_env_def py_contains_def py_getitem_def
        py_iter_def pip_install_def py_str_def run_cmd_def tokenize_def simple_env_def child_def
        w0_def py_print_def error_notice_def str_int_def digits.simps)
  have 5: "\<forall>n\<in>set [''rdkit'', ''mols2grid'']. \<forall>log fs. clean_run ?e log fs
              (''pip install '' @ (if False then ''--upgrade --force-reinstall'' else []) @ '' '' @ n)"
    by (simp add: clean_run_def manifest_env_def simple_env_def child_def)
  from pip_install_from_conda_yaml_one_command_each [OF 1 2 3 4, of False w0] 5
  have "fst (pip_install_from_conda_yaml ?e ''environment.yml'' False w0) = Inr ()"
    by blast
  with run show ?thesis by simp
qed

text \<open>
  Claim C4 as stated fails. No program \<^verbatim>\<open>pip\<close> can be spawned, so that
  \<^verbatim>\<open>Popen\<close> raises \<^verbatim>\<open>FileNotFoundError\<close> in the first call of
  \<^verbatim>\<open>run_cmd\<close>: the exception leaves the routine, and no install command is issued
  for the second package.
\<close>

theorem pip_install_from_conda_yaml_stops_counterexample:
  "pip_install_from_conda_yaml
     (manifest_env (\<lambda>argv. Inl FileNotFoundError)
        (YMap [(''dependencies'', YSeq [YMap [(''pip'', YSeq [YStr ''rdkit'', YStr ''mols2grid''])]])]))
     ''environment.yml'' False w0 =
   (Inl FileNotFoundError, w0\<lparr>console := [''CMD: pip install  rdkit'']\<rparr>)"
  by (simp add: pip_install_from_conda_yaml_def manifest_env_def py_contains_def py_getitem_def
        py_iter_def pip_install_def py_str_def run_cmd_def tokenize_def simple_env_def
        w0_def py_print_def)

text \<open>
  A manifest whose dependency list has no \<^verbatim>\<open>pip\<close> entry: the routine raises and
  leaves the world as it was, so that nothing is printed and nothing is spawned. The
  exception is the assertion of line 44 with its message, unless a dictionary of the
  list has no key \<^verbatim>\<open>pip\<close>: then it is the \<^verbatim>\<open>KeyError\<close> of line 42.
\<close>

lemma no_pip_aborts_before_install:
  assumes "load_yaml e filename = Inr (YMap m)"
      and "map_of m ''dependencies'' = Some (YSeq items)"
      and "pip_entries items = []"
  shows "pip_install_from_conda_yaml e filename force w =
     (Inl (if mapping_without_pip items then KeyError ''pip''
           else AssertionError (''Did not find pip in '' @ filename)), w)"
proof (cases "mapping_without_pip items")
  case True
  then show ?thesis
    by (simp add: manifest_scan [OF assms(1,2)] find_pip_KeyError)
next
  case False
  then show ?thesis
    by (simp add: manifest_scan [OF assms(1,2)] find_pip_last assms(3))
qed

text \<open>
  Claim C5 at a manifest whose dependency list holds a dictionary without the key
  \<^verbatim>\<open>pip\<close>: the routine stops before any install command, but with
  \<^verbatim>\<open>KeyError('pip')\<close> from the subscript of line 42, not with the assertion of
  line 44 and its message \<^verbatim>\<open>Did not find pip in environment.yml\<close>.
\<close>

theorem pip_install_from_conda_yaml_key_error:
  "pip_install_from_conda_yaml
     (manifest_env (\<lambda>argv. Inr (child [] 0 0))
        (YMap [(''name'', YStr ''chem''),
               (''dependencies'', YSeq [YStr ''numpy'', YMap [(''conda'', YSeq [YStr ''scipy''])]])]))
     ''environment.yml'' False w0 =
   (Inl (KeyError ''pip''), w0)"
  by (simp add: pip_install_from_conda_yaml_def manifest_env_def py_contains_def py_getitem_def
        py_iter_def simple_env_def)

text \<open>
  A dictionary without the key \<^verbatim>\<open>pip\<close> anywhere in the dependency list makes
  line 42 raise, whatever else the list holds, and nothing is installed.
\<close>

lemma mapping_without_pip_raises:
  assumes "load_yaml e filename = Inr (YMap m)"
      and "map_of m ''dependencies'' = Some (YSeq items)"
      and "mapping_without_pip items"
  shows "pip_install_from_conda_yaml e filename force w = (Inl (KeyError ''pip''), w)"
  using assms(3) by (simp add: manifest_scan [OF assms(1,2)] find_pip_KeyError)




section \<open>Properties of clone\_repo\<close>

lemma py_split_no_sep: "sep \<notin> set s \<Longrightarrow> py_split sep s = [s]"
  by (induction s) auto

lemma py_split_at_sep:
  "\<exists>ps. ps \<noteq> [] \<and> py_split sep (xs @ sep # ys) = ps @ py_split sep ys"
proof (induction xs)
  case Nil
  have "py_split sep ([] @ sep # ys) = [[]] @ py_split sep ys" by simp
  then show ?case by blast
next
  case (Cons a xs)
  then obtain p ps where ps: "py_split sep (xs @ sep # ys) = (p # ps) @ py_split sep ys"
    by (metis neq_Nil_conv)
  show ?case
  proof (cases "a = sep")
    case True
    with ps have "py_split sep ((a # xs) @ sep # ys) = ([] # p # ps) @ py_split sep ys" by simp
    then show ?thesis by blast
  next
    case False
    with ps have "py_split sep ((a # xs) @ sep # ys) = ((a # p) # ps) @ py_split sep ys" by simp
    then show ?thesis by blast
  qed
qed

lemma last_component:
  assumes "CHR ''/'' \<notin> set name"
  shows "last (py_split CHR ''/'' (pre @ CHR ''/'' # name)) = name"
proof -
  from py_split_at_sep [of "CHR ''/''" pre name] obtain ps where
    "py_split CHR ''/'' (pre @ CHR ''/'' # name) = ps @ py_split CHR ''/'' name" by blast
  with assms show ?thesis by (simp add: py_split_no_sep)
qed

lemma replace_git_suffix:
  "\<not> sublist ''.git'' name \<Longrightarrow> replace_from ''.git'' [] (name @ ''.git'') = name"
proof (induction name)
  case Nil
  then show ?case by simp
next
  case (Cons c cs)
  from Cons.prems have tail: "\<not> sublist ''.git'' cs"
    by (meson sublist_Cons_right)
  have np: "\<not> prefix ''.git'' (c # cs @ ''.git'')"
  proof
    assume p: "prefix ''.git'' (c # cs @ ''.git'')"
    show False
    proof (cases cs)
      case Nil
      with p show False by simp
    next
      case 1: (Cons a cs1)
      show False
      proof (cases cs1)
        case Nil
        with 1 p show False by simp
      next
        case 2: (Cons b cs2)
        show False
        proof (cases cs2)
          case Nil
          with 1 2 p show False by simp
        next
          case 3: (Cons d cs3)
          with 1 2 p have "c # cs = ''.git'' @ cs3" by simp
          moreover have "sublist ''.git'' (''.git'' @ cs3)"
            using sublist_appendI [of "''.git''" "[]" cs3] by simp
          ultimately show False using Cons.prems by simp
        qed
      qed
    qed
  qed
  have "replace_from ''.git'' [] (c # cs @ ''.git'') = c # replace_from ''.git'' [] (cs @ ''.git'')"
    using np by (subst replace_from.simps) (simp only: simp_thms if_False)
  with Cons.IH [OF tail] show ?case by (simp only: append_Cons)
qed

lemma repo_dir_of_url:
  assumes "CHR ''/'' \<notin> set name" and "\<not> sublist ''.git'' name"
  shows "py_replace ''.git'' [] (last (py_split CHR ''/'' (''https://'' @ host @ ''/'' @ grp @ ''/'' @ name @ ''.git''))) = name"
proof -
  have "CHR ''/'' \<notin> set (name @ ''.git'')" using assms(1) by simp
  from last_component [OF this, of "''https://'' @ host @ ''/'' @ grp"]
  have "last (py_split CHR ''/'' (''https://'' @ host @ ''/'' @ grp @ ''/'' @ name @ ''.git'')) = name @ ''.git''"
    by simp
  with replace_git_suffix [OF assms(2)] show ?thesis by (simp add: py_replace_def)
qed

lemma shutil_move_Inr:
  assumes "shutil_move fs d n = Inr fs'"
  shows "\<exists>es x. map_of (cwd_entries fs) d = Some (Dir es) \<and> map_of es n = Some x \<and>
           map_of (cwd_entries fs) n = None \<and>
           map_of (cwd_entries fs') = (map_of (cwd_entries fs))(d \<mapsto> Dir (AList.delete n es), n \<mapsto> x)"
  using assms
  by (auto simp: shutil_move_def update_conv' split: option.splits node.splits if_splits)

text \<open>
  When every move of the loop succeeds, each moved name is bound in the working
  directory to the entry it had in \<open>d\<close>, \<open>d\<close> is still a directory there, and
  no other name of the working directory has changed.
\<close>

lemma move_all_Inr:
  assumes "move_all fs d ns = (Inr u, fs')"
      and "map_of (cwd_entries fs) d = Some (Dir es)"
      and "distinct ns"
  shows "(\<forall>n\<in>set ns. map_of (cwd_entries fs') n = map_of es n \<and> map_of es n \<noteq> None \<and> n \<noteq> d) \<and>
         (\<exists>es'. map_of (cwd_entries fs') d = Some (Dir es')) \<and>
         (\<forall>k. k \<notin> set ns \<and> k \<noteq> d \<longrightarrow> map_of (cwd_entries fs') k = map_of (cwd_entries fs) k)"
  using assms
proof (induction ns arbitrary: fs es)
  case Nil
  then show ?case by simp
next
  case (Cons n ns)
  from Cons.prems(1) obtain fs1 where
    mv: "shutil_move fs d n = Inr fs1" and rest: "move_all fs1 d ns = (Inr u, fs')"
    by (auto split: sum.splits)
  from shutil_move_Inr [OF mv] Cons.prems(2) obtain x where
    x: "map_of es n = Some x" and free: "map_of (cwd_entries fs) n = None"
    and m1: "map_of (cwd_entries fs1) = (map_of (cwd_entries fs))(d \<mapsto> Dir (AList.delete n es), n \<mapsto> x)"
    by auto
  from free Cons.prems(2) have nd: "n \<noteq> d" by auto
  with m1 have d1: "map_of (cwd_entries fs1) d = Some (Dir (AList.delete n es))" by simp
  from Cons.prems(3) have dist: "distinct ns" and nn: "n \<notin> set ns" by simp_all
  note ih = Cons.IH [OF rest d1 dist]
  have "map_of (cwd_entries fs') n = Some x"
    using ih nn nd m1 by simp
  moreover have "\<forall>k\<in>set ns. map_of (cwd_entries fs') k = map_of es k \<and> map_of es k \<noteq> None \<and> k \<noteq> d"
    using ih nn by (auto simp: delete_conv')
  moreover have "\<forall>k. k \<notin> set (n # ns) \<and> k \<noteq> d \<longrightarrow> map_of (cwd_entries fs') k = map_of (cwd_entries fs) k"
    using ih m1 by simp
  ultimately show ?case using ih x nd by simp
qed

lemma glob_star_dir:
  "map_of (cwd_entries fs) d = Some (Dir es) \<Longrightarrow> glob_star fs d = filter (\<lambda>n. \<not> hidden n) (map fst es)"
  by (simp add: glob_star_def)

text \<open>
  The loop succeeds when the names to move are distinct entries of \<open>d\<close> and none of
  them is bound in the working directory.
\<close>

lemma move_all_succeeds:
  assumes "map_of (cwd_entries fs) d = Some (Dir es)" and "distinct ns"
      and "\<forall>n\<in>set ns. map_of es n \<noteq> None \<and> map_of (cwd_entries fs) n = None"
  shows "\<exists>fs'. move_all fs d ns = (Inr (), fs')"
  using assms
proof (induction ns arbitrary: fs es)
  case Nil
  then show ?case by simp
next
  case (Cons n ns)
  from Cons.prems obtain x where x: "map_of es n = Some x" and free: "map_of (cwd_entries fs) n = None"
    by auto
  let ?fs1 = "fs\<lparr>cwd_entries := AList.update n x (AList.update d (Dir (AList.delete n es)) (cwd_entries fs))\<rparr>"
  from Cons.prems(1) x free have mv: "shutil_move fs d n = Inr ?fs1"
    by (simp add: shutil_move_def)
  from free Cons.prems(1) have nd: "n \<noteq> d" by auto
  have m1: "map_of (cwd_entries ?fs1) = (map_of (cwd_entries fs))(d \<mapsto> Dir (AList.delete n es), n \<mapsto> x)"
    by (simp add: update_conv')
  with nd have d1: "map_of (cwd_entries ?fs1) d = Some (Dir (AList.delete n es))" by simp
  from Cons.prems(2) have dist: "distinct ns" and nn: "n \<notin> set ns" by simp_all
  have "\<forall>k\<in>set ns. map_of (AList.delete n es) k \<noteq> None \<and> map_of (cwd_entries ?fs1) k = None"
  proof
    fix k assume k: "k \<in> set ns"
    with nn have kn: "k \<noteq> n" by auto
    from k Cons.prems(3) have "map_of es k \<noteq> None" "map_of (cwd_entries fs) k = None" by simp_all
    moreover from this Cons.prems(1) have "k \<noteq> d" by auto
    ultimately show "map_of (AList.delete n es) k \<noteq> None \<and> map_of (cwd_entries ?fs1) k = None"
      using kn by (simp add: update_conv' delete_conv')
  qed
  from Cons.IH [OF d1 dist this] mv show ?case by simp
qed

text \<open>
  Claim C6, as the code has it. The URL is \<^verbatim>\<open>https://host/group/name.git\<close> with a
  name that is a plain entry name (not empty, no \<^verbatim>\<open>*\<close>, \<^verbatim>\<open>?\<close> or \<^verbatim>\<open>[\<close>,
  not \<^verbatim>\<open>.\<close> or \<^verbatim>\<open>..\<close>) and does not contain \<^verbatim>\<open>.git\<close>; after the clone
  command has run, \<^verbatim>\<open>name\<close> is a directory of the working directory, with one
  entry per name. Then after \<^verbatim>\<open>clone_repo\<close> returns, every entry of that directory
  whose name does not start with a dot is an entry of the working directory, with what
  it held; \<^verbatim>\<open>name\<close> itself is no longer there; and no other entry of the working
  directory has changed. And \<^verbatim>\<open>clone_repo\<close> does return when none of these names
  is already taken in the working directory.
\<close>

theorem clone_repo_flattens_visible_entries:
  assumes "repo_url = ''https://'' @ host @ ''/'' @ grp @ ''/'' @ name @ ''.git''"
      and "CHR ''/'' \<notin> set name" and "plain_name name" and "\<not> sublist ''.git'' name"
      and "run_cmd e (''git clone '' @ repo_url) False True True w = (Inr rc, w1)"
      and "map_of (cwd_entries (os w1)) name = Some (Dir es)" and "distinct (map fst es)"
  shows "(clone_repo e repo_url w = (Inr (), w2) \<longrightarrow>
           (\<forall>(n, x)\<in>set es. \<not> hidden n \<longrightarrow> map_of (cwd_entries (os w2)) n = Some x) \<and>
           map_of (cwd_entries (os w2)) name = None \<and>
           (\<forall>k. k \<noteq> name \<and> k \<notin> fst ` set es \<longrightarrow>
                map_of (cwd_entries (os w2)) k = map_of (cwd_entries (os w1)) k)) \<and>
         ((\<forall>(n, x)\<in>set es. \<not> hidden n \<longrightarrow> map_of (cwd_entries (os w1)) n = None) \<longrightarrow>
           fst (clone_repo e repo_url w) = Inr ())"
proof -
  let ?ns = "filter (\<lambda>n. \<not> hidden n) (map fst es)"
  have dir: "py_replace ''.git'' [] (last (py_split CHR ''/'' repo_url)) = name"
    unfolding assms(1) by (rule repo_dir_of_url [OF assms(2,4)])
  have unfold: "clone_repo e repo_url w =
      (case move_all (os w1) name ?ns of
         (Inl err, fs2) \<Rightarrow> (Inl err, w1\<lparr>os := fs2\<rparr>)
       | (Inr u, fs2) \<Rightarrow>
           (case shutil_rmtree fs2 name of
              Inl err \<Rightarrow> (Inl err, w1\<lparr>os := fs2\<rparr>)
            | Inr fs3 \<Rightarrow> (Inr (), w1\<lparr>os := fs3\<rparr>)))"
    unfolding clone_repo_def Let_def dir assms(5)
    by (simp add: assms(3) glob_star_dir [OF assms(6)])
  from assms(7) have dist: "distinct ?ns" by (simp add: distinct_map_filter)
  have after: "(\<forall>(n, x)\<in>set es. \<not> hidden n \<longrightarrow> map_of (cwd_entries (os w2)) n = Some x) \<and>
           map_of (cwd_entries (os w2)) name = None \<and>
           (\<forall>k. k \<noteq> name \<and> k \<notin> fst ` set es \<longrightarrow>
                map_of (cwd_entries (os w2)) k = map_of (cwd_entries (os w1)) k)"
    if ret: "clone_repo e repo_url w = (Inr (), w2)"
  proof -
    from ret unfold obtain fs2 fs3 where
      mv: "move_all (os w1) name ?ns = (Inr (), fs2)"
      and rm: "shutil_rmtree fs2 name = Inr fs3"
      and w2: "w2 = w1\<lparr>os := fs3\<rparr>"
      by (auto split: prod.splits sum.splits)
    note moved = move_all_Inr [OF mv assms(6) dist]
    from rm have m3: "map_of (cwd_entries fs3) = (map_of (cwd_entries fs2))(name := None)"
      by (auto simp: shutil_rmtree_def delete_conv' split: option.splits node.splits)
    have "map_of (cwd_entries fs3) n = Some x" if "(n, x) \<in> set es" "\<not> hidden n" for n x
    proof -
      from that have "n \<in> set ?ns" by force
      with moved have "map_of (cwd_entries fs2) n = map_of es n" "n \<noteq> name" by simp_all
      moreover from that(1) assms(7) have "map_of es n = Some x" by simp
      ultimately show ?thesis by (simp add: m3)
    qed
    moreover have "map_of (cwd_entries fs3) name = None" by (simp add: m3)
    moreover have "map_of (cwd_entries fs3) k = map_of (cwd_entries (os w1)) k"
      if "k \<noteq> name" "k \<notin> fst ` set es" for k
    proof -
      from that(2) have "k \<notin> set ?ns" by auto
      with moved that(1) show ?thesis by (simp add: m3)
    qed
    ultimately show ?thesis unfolding w2 by auto
  qed
  have returns: "fst (clone_repo e repo_url w) = Inr ()"
    if free: "\<forall>(n, x)\<in>set es. \<not> hidden n \<longrightarrow> map_of (cwd_entries (os w1)) n = None"
  proof -
    have "\<forall>n\<in>set ?ns. map_of es n \<noteq> None \<and> map_of (cwd_entries (os w1)) n = None"
    proof
      fix n assume "n \<in> set ?ns"
      then obtain x where "(n, x) \<in> set es" "\<not> hidden n" by auto
      with free assms(7) show "map_of es n \<noteq> None \<and> map_of (cwd_entries (os w1)) n = None"
        by auto
    qed
    from move_all_succeeds [OF assms(6) dist this] obtain fs2 where
      mv: "move_all (os w1) name ?ns = (Inr (), fs2)" by blast
    from move_all_Inr [OF mv assms(6) dist] obtain es' where
      "map_of (cwd_entries fs2) name = Some (Dir es')" by blast
    then have "\<exists>fs3. shutil_rmtree fs2 name = Inr fs3" by (simp add: shutil_rmtree_def)
    with mv unfold show ?thesis by auto
  qed
  from after returns show ?thesis by blast
qed

lemma repo_dir_mols:
  "py_replace ''.git'' [] (last (py_split CHR ''/'' ''https://github.com/chem/mols.git'')) = ''mols''"
  by (simp add: py_replace_def)

text \<open>
  Claim C6, an instance: the file and the subdirectory of the cloned directory are in the
  working directory afterwards, beside the file that was there, and the cloned directory
  is gone.
\<close>

theorem clone_repo_flattens_visible_entries_witness:
  "clone_repo git_env ''https://github.com/chem/mols.git'' w0 =
     (Inr (), w0\<lparr>console := [''CMD: git clone https://github.com/chem/mols.git''],
                 spawned := [([''git clone https://github.com/chem/mols.git''], True)],
                 os := \<lparr>cwd_entries =
                          [(''notes.txt'', File ''n''), (''README.md'', File ''hello''),
                           (''src'', Dir [(''a.py'', File ''x'')])],
                        conda_dir_exists = False\<rparr>\<rparr>) \<and>
   map_of (cwd_entries (os (snd (clone_repo git_env ''https://github.com/chem/mols.git'' w0)))) ''README.md'' =
     Some (File ''hello'') \<and>
   map_of (cwd_entries (os (snd (clone_repo git_env ''https://github.com/chem/mols.git'' w0)))) ''src'' =
     Some (Dir [(''a.py'', File ''x'')]) \<and>
   map_of (cwd_entries (os (snd (clone_repo git_env ''https://github.com/chem/mols.git'' w0)))) ''mols'' = None"
proof -
  let ?url = "''https://github.com/chem/mols.git''"
  let ?w1 = "w0\<lparr>console := [''CMD: git clone https://github.com/chem/mols.git''],
                 spawned := [([''git clone https://github.com/chem/mols.git''], True)],
                 os := after_clone\<rparr>"
  let ?w2 = "w0\<lparr>console := [''CMD: git clone https://github.com/chem/mols.git''],
                 spawned := [([''git clone https://github.com/chem/mols.git''], True)],
                 os := \<lparr>cwd_entries =
                          [(''notes.txt'', File ''n''), (''README.md'', File ''hello''),
                           (''src'', Dir [(''a.py'', File ''x'')])],
                        conda_dir_exists = False\<rparr>\<rparr>"
  let ?es = "[(''.git'', Dir [(''HEAD'', File ''ref'')]), (''README.md'', File ''hello''),
              (''src'', Dir [(''a.py'', File ''x'')])]"
  have 1: "?url = ''https://'' @ ''github.com'' @ ''/'' @ ''chem'' @ ''/'' @ ''mols'' @ ''.git''"
    by simp
  have 2: "CHR ''/'' \<notin> set ''mols''" "plain_name ''mols''" "\<not> sublist ''.git'' ''mols''"
    by (simp_all add: plain_name_def has_magic_def sublist_Cons_right)
  have 3: "run_cmd git_env (''git clone '' @ ?url) False True True w0 = (Inr 0, ?w1)"
    by (simp add: git_env_def run_cmd_def tokenize_def simple_env_def child_def w0_def py_print_def)
  have 4: "map_of (cwd_entries (os ?w1)) ''mols'' = Some (Dir ?es)" "distinct (map fst ?es)"
    by (simp_all add: after_clone_def)
  have 5: "clone_repo git_env ?url w0 = (Inr (), ?w2)"
    unfolding clone_repo_def Let_def repo_dir_mols 3
    by (simp add: plain_name_def has_magic_def glob_star_def
        after_clone_def hidden_def shutil_move_def shutil_rmtree_def w0_def)
  have 6: "\<forall>(n, x)\<in>set ?es. \<not> hidden n \<longrightarrow> map_of (cwd_entries (os ?w1)) n = None"
    by (simp add: hidden_def after_clone_def)
  from clone_repo_flattens_visible_entries [OF 1 2 3 4, of ?w2] 5 6 show ?thesis
    by (simp add: hidden_def)
qed

text \<open>
  Claim C6 as stated fails. The cloned directory \<^verbatim>\<open>mols\<close> holds \<^verbatim>\<open>.git\<close>, as
  every clone does. \<^verbatim>\<open>glob('mols/*')\<close> does not return hidden names, so
  \<^verbatim>\<open>.git\<close> is not moved, and \<^verbatim>\<open>rmtree\<close> deletes it with the directory:
  \<^verbatim>\<open>clone_repo\<close> returns and \<^verbatim>\<open>.git\<close> is not in the working directory.
\<close>

theorem clone_repo_drops_hidden_counterexample:
  "map_of (cwd_entries after_clone) ''mols'' =
     Some (Dir [(''.git'', Dir [(''HEAD'', File ''ref'')]), (''README.md'', File ''hello''),
                (''src'', Dir [(''a.py'', File ''x'')])]) \<and>
   run_cmd git_env ''git clone https://github.com/chem/mols.git'' False True True w0 =
     (Inr 0, w0\<lparr>console := [''CMD: git clone https://github.com/chem/mols.git''],
                 spawned := [([''git clone https://github.com/chem/mols.git''], True)],
                 os := after_clone\<rparr>) \<and>
   fst (clone_repo git_env ''https://github.com/chem/mols.git'' w0) = Inr () \<and>
   map_of (cwd_entries (os (snd (clone_repo git_env ''https://github.com/chem/mols.git'' w0)))) ''.git'' = None"
proof -
  have 3: "run_cmd git_env ''git clone https://github.com/chem/mols.git'' False True True w0 =
     (Inr 0, w0\<lparr>console := [''CMD: git clone https://github.com/chem/mols.git''],
                 spawned := [([''git clone https://github.com/chem/mols.git''], True)],
                 os := after_clone\<rparr>)"
    by (simp add: git_env_def run_cmd_def tokenize_def simple_env_def child_def w0_def py_print_def)
  then have 4: "run_cmd git_env (''git clone '' @ ''https://github.com/chem/mols.git'') False True True w0 =
     (Inr 0, w0\<lparr>console := [''CMD: git clone https://github.com/chem/mols.git''],
                 spawned := [([''git clone https://github.com/chem/mols.git''], True)],
                 os := after_clone\<rparr>)"
    by simp
  have "clone_repo git_env ''https://github.com/chem/mols.git'' w0 =
     (Inr (), w0\<lparr>console := [''CMD: git clone https://github.com/chem/mols.git''],
                 spawned := [([''git clone https://github.com/chem/mols.git''], True)],
                 os := \<lparr>cwd_entries =
                          [(''notes.txt'', File ''n''), (''README.md'', File ''hello''),
                           (''src'', Dir [(''a.py'', File ''x'')])],
                        conda_dir_exists = False\<rparr>\<rparr>)"
    unfolding clone_repo_def Let_def repo_dir_mols 4
    by (simp add: plain_name_def has_magic_def glob_star_def
        after_clone_def hidden_def shutil_move_def shutil_rmtree_def w0_def)
  with 3 show ?thesis by (simp add: after_clone_def)
qed

end
